theory Spec2Isabelle
  imports Main "HOL-Library.Word"
begin

chapter \<open>aws-runas: configuration resolution, address management and the federation helpers\<close>

text \<open>
  A shallow embedding of the Go sources. Every Go function becomes a HOL function of the
  same name. A Go \<^verbatim>\<open>error\<close> is a value of type \<open>error\<close>; a result
  \<^verbatim>\<open>(x, err)\<close> is a pair whose second component is \<open>None\<close> for
  \<^verbatim>\<open>nil\<close>, or a sum \<open>error + 'a\<close> where exactly one of the two is
  meaningful. A pointer that may be \<^verbatim>\<open>nil\<close> is an \<open>option\<close>.
  Calls that leave the process (logging, environment reads, file loads, OS commands, the
  mutex) are recorded, in order, in a list of events returned beside the result.
\<close>

section \<open>Errors\<close>

datatype error = Error string

text \<open>The text \<^verbatim>\<open>%v\<close> prints for an error: its message.\<close>

fun error_message :: "error \<Rightarrow> string" where
  "error_message (Error m) = m"

section \<open>config/chain\_loader.go: the chain loader\<close>

text \<open>
  The \<^verbatim>\<open>Loader\<close> interface has the two methods the chain loader calls. Its
  declaration, and those of \<^verbatim>\<open>AwsConfig\<close> and
  \<^verbatim>\<open>AwsCredentials\<close> with their \<^verbatim>\<open>MergeIn\<close> methods, are not
  part of the sources: the two struct types are type parameters, and their zero values
  (what \<^verbatim>\<open>new(T)\<close> points to) and \<^verbatim>\<open>MergeIn\<close> methods are
  the fields of \<open>merge_ops\<close>. A method returns a pointer and an error, and nothing
  relates the two, so a loader's result is a pair of options. The variadic
  \<^verbatim>\<open>sources ...interface{}\<close> is handed to every loader unchanged. A loader
  is a non-nil value whose methods return: a nil entry in the chain, or a method that
  panics, is not modelled.
\<close>

record ('cfg, 'cred, 'src) Loader =
  ldr_Config :: "string \<Rightarrow> 'src list \<Rightarrow> 'cfg option \<times> error option"
  ldr_Credentials :: "string \<Rightarrow> 'src list \<Rightarrow> 'cred option \<times> error option"

record 'a merge_ops =
  zero_value :: 'a
  MergeIn :: "'a \<Rightarrow> 'a option \<Rightarrow> 'a"

record ('cfg, 'cred, 'src) chainLoader =
  loaders :: "('cfg, 'cred, 'src) Loader list"

definition NewChainLoader ::
  "('cfg, 'cred, 'src) Loader list \<Rightarrow> ('cfg, 'cred, 'src) chainLoader" where
  "NewChainLoader chain = \<lparr>loaders = chain\<rparr>"

text \<open>
  The body of \<^verbatim>\<open>for _, ldr := range l.loaders\<close> in
  \<^verbatim>\<open>Config\<close>: the accumulated config \<open>c\<close> and the lines handed to
  \<^verbatim>\<open>logger.Debugf\<close> so far are the loop's state.
\<close>

fun Config_loop ::
  "'cfg merge_ops \<Rightarrow> string \<Rightarrow> 'src list \<Rightarrow> ('cfg, 'cred, 'src) Loader list \<Rightarrow>
   'cfg \<times> string list \<Rightarrow> 'cfg \<times> string list" where
  "Config_loop ops profile sources [] (c, lg) = (c, lg)"
| "Config_loop ops profile sources (ldr # rest) (c, lg) =
     (case ldr_Config ldr profile sources of
        (cf, Some err) \<Rightarrow>
          Config_loop ops profile sources rest
            (c, lg @ [''error loading configuration: '' @ error_message err])
      | (cf, None) \<Rightarrow>
          Config_loop ops profile sources rest (MergeIn ops c cf, lg))"

definition chainLoader_Config ::
  "'cfg merge_ops \<Rightarrow> ('cfg, 'cred, 'src) chainLoader \<Rightarrow> string \<Rightarrow> 'src list \<Rightarrow>
   'cfg option \<times> error option \<times> string list" where
  "chainLoader_Config ops l profile sources =
     (case Config_loop ops profile sources (loaders l) (zero_value ops, []) of
        (c, lg) \<Rightarrow> (Some c, None, lg))"

fun Credentials_loop ::
  "'cred merge_ops \<Rightarrow> string \<Rightarrow> 'src list \<Rightarrow> ('cfg, 'cred, 'src) Loader list \<Rightarrow>
   'cred \<times> string list \<Rightarrow> 'cred \<times> string list" where
  "Credentials_loop ops profile sources [] (c, lg) = (c, lg)"
| "Credentials_loop ops profile sources (ldr # rest) (c, lg) =
     (case ldr_Credentials ldr profile sources of
        (cr, Some err) \<Rightarrow>
          Credentials_loop ops profile sources rest
            (c, lg @ [''error loading credentials: '' @ error_message err])
      | (cr, None) \<Rightarrow>
          Credentials_loop ops profile sources rest (MergeIn ops c cr, lg))"

definition chainLoader_Credentials ::
  "'cred merge_ops \<Rightarrow> ('cfg, 'cred, 'src) chainLoader \<Rightarrow> string \<Rightarrow> 'src list \<Rightarrow>
   'cred option \<times> error option \<times> string list" where
  "chainLoader_Credentials ops l profile sources =
     (case Credentials_loop ops profile sources (loaders l) (zero_value ops, []) of
        (c, lg) \<Rightarrow> (Some c, None, lg))"

text \<open>The results a chain merges: those of the loaders, in order, that came with no error.\<close>

definition merged_results :: "('a option \<times> error option) list \<Rightarrow> 'a option list" where
  "merged_results rs = map fst (filter (\<lambda>r. snd r = None) rs)"

definition logged_errors :: "string \<Rightarrow> ('a option \<times> error option) list \<Rightarrow> string list" where
  "logged_errors prefix rs =
     concat (map (\<lambda>r. case snd r of None \<Rightarrow> [] | Some err \<Rightarrow> [prefix @ error_message err]) rs)"

text \<open>
  Modelled from the spec: \<^verbatim>\<open>MergeIn\<close> is missing from the sources. The spec's
  words: later sources' non-empty fields overwrite earlier ones, field by field, never
  the whole record. Here for a config of two fields, region and role ARN; merging a nil
  pointer changes nothing. It serves to run the chain on concrete loaders.
\<close>

definition fieldwise_ops :: "(string \<times> string) merge_ops" where
  "fieldwise_ops =
     \<lparr>zero_value = ([], []),
      MergeIn = (\<lambda>c cf. case cf of
                   None \<Rightarrow> c
                 | Some n \<Rightarrow> (if fst n = [] then fst c else fst n,
                              if snd n = [] then snd c else snd n))\<rparr>"

definition example_loader ::
  "(string \<times> string) option \<times> error option \<Rightarrow> (string \<times> string, unit, unit) Loader" where
  "example_loader r = \<lparr>ldr_Config = (\<lambda>p srcs. r), ldr_Credentials = (\<lambda>p srcs. (None, None))\<rparr>"

section \<open>lib/config/shared\_cfg\_handler.go: the shared-configuration handler\<close>

text \<open>
  Modelled from the spec: the declaration of this package's \<^verbatim>\<open>AwsConfig\<close> is
  not part of the sources. The fields are those the handler reads or writes
  (\<^verbatim>\<open>Name\<close>, \<^verbatim>\<open>RoleArn\<close>, \<^verbatim>\<open>SourceProfile\<close> and the two
  unexported pointers \<^verbatim>\<open>sourceProfile\<close>, \<^verbatim>\<open>defaultProfile\<close>) and the
  region the spec's profile record names. \<^verbatim>\<open>new(AwsConfig)\<close> is the value with
  every string empty and both pointers nil.
\<close>

datatype AwsConfig = AwsConfig
  (Name: string) (Region: string) (RoleArn: string) (SourceProfile: string)
  (sourceProfile: "AwsConfig option") (defaultProfile: "AwsConfig option")

definition new_AwsConfig :: AwsConfig where
  "new_AwsConfig = AwsConfig [] [] [] [] None None"

fun set_Name :: "string \<Rightarrow> AwsConfig \<Rightarrow> AwsConfig" where
  "set_Name n (AwsConfig _ rg ra sn sp dp) = AwsConfig n rg ra sn sp dp"

fun set_sourceProfile :: "AwsConfig option \<Rightarrow> AwsConfig \<Rightarrow> AwsConfig" where
  "set_sourceProfile sp (AwsConfig n rg ra sn _ dp) = AwsConfig n rg ra sn sp dp"

fun set_defaultProfile :: "AwsConfig option \<Rightarrow> AwsConfig \<Rightarrow> AwsConfig" where
  "set_defaultProfile dp (AwsConfig n rg ra sn sp _) = AwsConfig n rg ra sn sp dp"

text \<open>
  What the handler calls outside its own file: the process environment
  (\<^verbatim>\<open>os.LookupEnv\<close>), the go-ini library (\<^verbatim>\<open>ini.Load\<close>,
  \<^verbatim>\<open>File.GetSection\<close>, \<^verbatim>\<open>Section.MapTo\<close>, over its own file and
  section types) and the SDK's three default names. \<^verbatim>\<open>MapTo\<close> writes into the
  struct it is given and may fail half way, so it returns the struct as it left it
  together with the error.
\<close>

record ('file, 'sec) world =
  LookupEnv :: "string \<Rightarrow> string option"
  ini_Load :: "string \<Rightarrow> error + 'file"
  GetSection :: "'file \<Rightarrow> string \<Rightarrow> error + 'sec"
  MapTo :: "'sec \<Rightarrow> AwsConfig \<Rightarrow> AwsConfig \<times> error option"
  SharedConfigFilename :: string
  SharedCredentialsFilename :: string
  DefaultSharedConfigProfile :: string

datatype Logger = Logger string nat

record ConfigHandlerOpts =
  LogLevel :: nat

record SharedCfgConfigHandler =
  confFile :: string
  credFile :: string
  profile :: string
  defProfile :: string
  log :: "Logger option"

datatype cfg_event = EnvLookup string | IniLoad string | LogDebugf string

definition NewSharedCfgConfigHandler ::
  "('file, 'sec) world \<Rightarrow> ConfigHandlerOpts option \<Rightarrow> SharedCfgConfigHandler" where
  "NewSharedCfgConfigHandler w opts =
     \<lparr>confFile = SharedConfigFilename w,
      credFile = SharedCredentialsFilename w,
      profile = [],
      defProfile = DefaultSharedConfigProfile w,
      log = (case opts of
               None \<Rightarrow> None
             | Some o' \<Rightarrow> Some (Logger ''SharedCfgConfigHandler'' (LogLevel o')))\<rparr>"

definition Profile :: "SharedCfgConfigHandler \<Rightarrow> string \<Rightarrow> SharedCfgConfigHandler" where
  "Profile h p = h\<lparr>profile := p\<rparr>"

definition readEnv ::
  "('file, 'sec) world \<Rightarrow> SharedCfgConfigHandler \<Rightarrow> SharedCfgConfigHandler \<times> cfg_event list" where
  "readEnv w h =
     (let h1 = (case LookupEnv w ''AWS_CONFIG_FILE'' of
                  Some conf \<Rightarrow> h\<lparr>confFile := conf\<rparr> | None \<Rightarrow> h);
          h2 = (case LookupEnv w ''AWS_SHARED_CREDENTIALS_FILE'' of
                  Some cred \<Rightarrow> h1\<lparr>credFile := cred\<rparr> | None \<Rightarrow> h1);
          h3 = (case LookupEnv w ''AWS_DEFAULT_PROFILE'' of
                  Some dp \<Rightarrow> h2\<lparr>defProfile := dp\<rparr> | None \<Rightarrow> h2);
          h4 = (case LookupEnv w ''AWS_PROFILE'' of
                  Some p \<Rightarrow> h3\<lparr>profile := p\<rparr> | None \<Rightarrow> h3)
      in (h4, [EnvLookup ''AWS_CONFIG_FILE'', EnvLookup ''AWS_SHARED_CREDENTIALS_FILE'',
               EnvLookup ''AWS_DEFAULT_PROFILE'', EnvLookup ''AWS_PROFILE'']))"

text \<open>\<^verbatim>\<open>if h.log != nil { h.log.Debugf(...) }\<close>: the line, when there is a logger.\<close>

definition debugf :: "SharedCfgConfigHandler \<Rightarrow> string \<Rightarrow> cfg_event list" where
  "debugf h line = (case log h of None \<Rightarrow> [] | Some _ \<Rightarrow> [LogDebugf line])"

text \<open>The tail of \<^verbatim>\<open>mapConfig\<close>, once a section is found.\<close>

definition mapSection ::
  "('file, 'sec) world \<Rightarrow> string \<Rightarrow> AwsConfig \<Rightarrow> 'sec \<Rightarrow> AwsConfig \<times> error option" where
  "mapSection w p c s =
     (case MapTo w s c of
        (c', Some err) \<Rightarrow> (c', Some err)
      | (c', None) \<Rightarrow> (set_Name p c', None))"

definition mapConfig ::
  "('file, 'sec) world \<Rightarrow> SharedCfgConfigHandler \<Rightarrow> string \<Rightarrow> AwsConfig \<Rightarrow> 'file \<Rightarrow>
   AwsConfig \<times> error option \<times> cfg_event list" where
  "mapConfig w h p c f =
     (case GetSection w f p of
        Inr s \<Rightarrow> (case mapSection w p c s of (c', e) \<Rightarrow> (c', e, []))
      | Inl _ \<Rightarrow>
          (let evs = debugf h (''Section '' @ [CHR 0x27] @ p @ [CHR 0x27]
                         @ '' not found, trying '' @ [CHR 0x27] @ ''profile '' @ p @ [CHR 0x27])
           in case GetSection w f (''profile '' @ p) of
                Inl err \<Rightarrow> (c, Some err, evs)
              | Inr s \<Rightarrow> (case mapSection w p c s of (c', e) \<Rightarrow> (c', e, evs))))"

definition loadProfile ::
  "('file, 'sec) world \<Rightarrow> SharedCfgConfigHandler \<Rightarrow> AwsConfig \<Rightarrow>
   SharedCfgConfigHandler \<times> AwsConfig \<times> error option \<times> cfg_event list" where
  "loadProfile w h c =
     (case ini_Load w (confFile h) of
        Inl err \<Rightarrow> (h, c, Some err, [IniLoad (confFile h)])
      | Inr f \<Rightarrow>
          (case mapConfig w h (defProfile h) new_AwsConfig f of (d, derr, ev1) \<Rightarrow>
           let c1 = set_defaultProfile (Some d) c;
               ev1' = [IniLoad (confFile h)] @ ev1 @
                      (case derr of
                         None \<Rightarrow> []
                       | Some err \<Rightarrow> debugf h (''Error loading default profile: '' @ defProfile h
                                                  @ '': '' @ error_message err));
               h1 = (if length (profile h) < 1 then h\<lparr>profile := defProfile h\<rparr> else h)
           in case mapConfig w h1 (profile h1) c1 f of
                (c2, Some err, ev2) \<Rightarrow> (h1, c2, Some err, ev1' @ ev2)
              | (c2, None, ev2) \<Rightarrow>
                  if length (SourceProfile c2) > 0 \<and> length (RoleArn c2) > 0
                  then (case mapConfig w h1 (SourceProfile c2) new_AwsConfig f of
                          (sp, Some err, ev3) \<Rightarrow>
                            (h1, set_sourceProfile (Some sp) c2, Some err, ev1' @ ev2 @ ev3)
                        | (sp, None, ev3) \<Rightarrow>
                            (h1, set_Name (profile h1) (set_sourceProfile (Some sp) c2), None,
                             ev1' @ ev2 @ ev3))
                  else (h1, set_Name (profile h1) c2, None, ev1' @ ev2)))"

text \<open>
  \<^verbatim>\<open>Config\<close> takes the pointer \<open>c\<close> and returns the handler and the pointed-to
  struct as it leaves them, the error, and the outside calls it made.
\<close>

definition Config ::
  "('file, 'sec) world \<Rightarrow> SharedCfgConfigHandler \<Rightarrow> AwsConfig option \<Rightarrow>
   SharedCfgConfigHandler \<times> AwsConfig option \<times> error option \<times> cfg_event list" where
  "Config w h cp =
     (case cp of
        None \<Rightarrow> (h, None, None, [])
      | Some c \<Rightarrow>
          (let h1 = (if length (Name c) > 0 then Profile h (Name c) else h)
           in case readEnv w h1 of (h2, ev1) \<Rightarrow>
              (case loadProfile w h2 c of
                 (h3, c', Some err, ev2) \<Rightarrow> (h3, Some c', Some err, ev1 @ ev2)
               | (h3, c', None, ev2) \<Rightarrow>
                   (h3,
                    Some (case sourceProfile c' of
                            None \<Rightarrow> c'
                          | Some sp \<Rightarrow> set_sourceProfile (Some (set_Name (SourceProfile c') sp)) c'),
                    None, ev1 @ ev2))))"

text \<open>
  An instance of the go-ini calls for running the handler on a concrete file system: a
  file is a list of named sections, a section a list of key/value pairs, and
  \<^verbatim>\<open>MapTo\<close> copies the keys \<^verbatim>\<open>region\<close>, \<^verbatim>\<open>role_arn\<close> and
  \<^verbatim>\<open>source_profile\<close> into their fields when the section has them.
\<close>

type_synonym ini_Section = "(string \<times> string) list"
type_synonym ini_File = "(string \<times> ini_Section) list"

definition alist_GetSection :: "ini_File \<Rightarrow> string \<Rightarrow> error + ini_Section" where
  "alist_GetSection f name =
     (case map_of f name of
        None \<Rightarrow> Inl (Error (''section '' @ name @ '' does not exist''))
      | Some s \<Rightarrow> Inr s)"

fun alist_MapTo :: "ini_Section \<Rightarrow> AwsConfig \<Rightarrow> AwsConfig \<times> error option" where
  "alist_MapTo s (AwsConfig n rg ra sn sp dp) =
     (AwsConfig n
        (case map_of s ''region'' of None \<Rightarrow> rg | Some v \<Rightarrow> v)
        (case map_of s ''role_arn'' of None \<Rightarrow> ra | Some v \<Rightarrow> v)
        (case map_of s ''source_profile'' of None \<Rightarrow> sn | Some v \<Rightarrow> v)
        sp dp,
      None)"

definition alist_world ::
  "(string \<times> string) list \<Rightarrow> (string \<times> ini_File) list \<Rightarrow> (ini_File, ini_Section) world" where
  "alist_world env files =
     \<lparr>LookupEnv = map_of env,
      ini_Load = (\<lambda>path. case map_of files path of
                           None \<Rightarrow> Inl (Error (''open '' @ path @ '': no such file or directory''))
                         | Some f \<Rightarrow> Inr f),
      GetSection = alist_GetSection,
      MapTo = alist_MapTo,
      SharedConfigFilename = ''/home/user/.aws/config'',
      SharedCredentialsFilename = ''/home/user/.aws/credentials'',
      DefaultSharedConfigProfile = ''default''\<rparr>"

text \<open>
  A configuration file with a default section and two profiles, for running the handler.
\<close>

definition example_config :: ini_File where
  "example_config =
     [(''default'', [(''region'', ''us-east-1'')]),
      (''profile dev'', [(''region'', ''eu-west-1'')]),
      (''profile prod'', [(''region'', ''ap-south-1'')])]"

definition example_world :: "(string \<times> string) list \<Rightarrow> (ini_File, ini_Section) world" where
  "example_world env = alist_world env [(''/home/user/.aws/config'', example_config)]"

section \<open>config/chain\_loader.go, second part: adding and removing the interface address\<close>

text \<open>
  The file holds the linux build of package metadata after the chain loader. Of
  \<^verbatim>\<open>net.Interface\<close> the two functions read the name only. The package's
  mutex \<^verbatim>\<open>mu\<close>, the two address constants and the helpers
  \<^verbatim>\<open>findInterfaceByAddress\<close> and \<^verbatim>\<open>doCommand\<close> are declared
  outside the sources: the constants and the helpers are the fields of
  \<open>netif_env\<close>, and a call of either helper or of the mutex is an event. A helper
  that returns no error is taken to return a non-nil interface. The event
  \<open>LookupInterface\<close> is the search for the interface to add the address to, which
  the caller of \<^verbatim>\<open>addAddress\<close> performs.
\<close>

record net_Interface =
  if_Name :: string

datatype netif_event =
  MuLock | MuUnlock | FindInterfaceByAddress string | LookupInterface
  | DoCommand "string list"

record netif_env =
  DefaultEc2ImdsAddr :: string
  DefaultEc2ImdsCidr :: string
  findInterfaceByAddress :: "string \<Rightarrow> error + net_Interface"
  doCommand :: "string list \<Rightarrow> error option"

datatype panic = Panic string

text \<open>
  \<^verbatim>\<open>addAddress\<close> reads \<^verbatim>\<open>iface.Name\<close> while it builds the command:
  with a nil \<^verbatim>\<open>iface\<close> it panics before anything is run.
\<close>

definition addAddress ::
  "netif_env \<Rightarrow> net_Interface option \<Rightarrow> string \<Rightarrow> panic + (error option \<times> netif_event list)" where
  "addAddress env iface cidrAddr =
     (case iface of
        None \<Rightarrow> Inl (Panic ''invalid memory address or nil pointer dereference'')
      | Some i \<Rightarrow>
          (let cmd = [''ip'', ''address'', ''add'', cidrAddr, ''dev'', if_Name i]
           in Inr (doCommand env cmd, [DoCommand cmd])))"

text \<open>
  \<^verbatim>\<open>removeAddress\<close>: the deferred \<^verbatim>\<open>mu.Unlock()\<close> runs when the
  function returns, on either path.
\<close>

definition removeAddress :: "netif_env \<Rightarrow> error option \<times> netif_event list" where
  "removeAddress env =
     (case findInterfaceByAddress env (DefaultEc2ImdsAddr env) of
        Inl err \<Rightarrow>
          (Some err, [MuLock, FindInterfaceByAddress (DefaultEc2ImdsAddr env), MuUnlock])
      | Inr iface \<Rightarrow>
          (let cmd = [''ip'', ''address'', ''del'', DefaultEc2ImdsCidr env, ''dev'', if_Name iface]
           in (doCommand env cmd,
               [MuLock, FindInterfaceByAddress (DefaultEc2ImdsAddr env), DoCommand cmd, MuUnlock])))"

text \<open>The OS commands among the events of a run, in order.\<close>

definition issued_commands :: "netif_event list \<Rightarrow> string list list" where
  "issued_commands evs =
     concat (map (\<lambda>e. case e of DoCommand cmd \<Rightarrow> [cmd] | _ \<Rightarrow> []) evs)"

text \<open>
  Modelled from the spec: \<^verbatim>\<open>findInterfaceByAddress\<close> is missing from the
  sources. Over the interfaces of the system, each with the addresses it holds, it
  returns the first one that holds the address, and an interface-not-found error when
  none does. It serves to run \<^verbatim>\<open>removeAddress\<close> on a concrete system.
\<close>

definition lookup_interface ::
  "(net_Interface \<times> string list) list \<Rightarrow> string \<Rightarrow> error + net_Interface" where
  "lookup_interface ifaces addr =
     (case find (\<lambda>i. addr \<in> set (snd i)) ifaces of
        None \<Rightarrow> Inl (Error ''interface not found'')
      | Some i \<Rightarrow> Inr (fst i))"

definition example_netif_env :: "(net_Interface \<times> string list) list \<Rightarrow> netif_env" where
  "example_netif_env ifaces =
     \<lparr>DefaultEc2ImdsAddr = ''169.254.169.254'',
      DefaultEc2ImdsCidr = ''169.254.169.254/22'',
      findInterfaceByAddress = lookup_interface ifaces,
      doCommand = (\<lambda>cmd. None)\<rparr>"


section \<open>The assume-role provider that lib/assume\_role\_provider\_test.go tests\<close>

text \<open>
  Modelled from the spec: \<^verbatim>\<open>NewAssumeRoleProvider\<close> is missing from the sources;
  only its test is there. The spec's words: constructing the provider with a nil profile
  must fail loudly (panic); the test adds that a non-nil profile with nil options yields
  a provider. The profile and options types are type parameters.
\<close>

record ('profile, 'opts) assumeRoleProvider =
  arp_profile :: 'profile
  arp_options :: "'opts option"

definition NewAssumeRoleProvider ::
  "'profile option \<Rightarrow> 'opts option \<Rightarrow> panic + ('profile, 'opts) assumeRoleProvider" where
  "NewAssumeRoleProvider prof opts =
     (case prof of
        None \<Rightarrow> Inl (Panic ''invalid profile'')
      | Some p \<Rightarrow> Inr \<lparr>arp_profile = p, arp_options = opts\<rparr>)"

section \<open>Base64 with the URL alphabet and no padding\<close>

text \<open>
  Go's \<^verbatim>\<open>base64.RawURLEncoding\<close>, as RFC 4648 section 5 defines it: three bytes
  become four characters of the URL-safe alphabet, a rest of two bytes three characters,
  a rest of one byte two characters, and no padding is written. Decoding refuses a
  character outside the alphabet (the padding character is outside) and a rest of one
  character.
\<close>

definition b64url_alphabet :: string where
  "b64url_alphabet = ''ABCDEFGHIJKLMNOPQRSTUVWXYZabcdefghijklmnopqrstuvwxyz0123456789-_''"

definition b64url_char :: "nat \<Rightarrow> char" where
  "b64url_char i = b64url_alphabet ! (i mod 64)"

fun base64url_nopad :: "8 word list \<Rightarrow> string" where
  "base64url_nopad (a # b # c # rest) =
     (let n = unat a * 65536 + unat b * 256 + unat c
      in [b64url_char (n div 262144), b64url_char (n div 4096), b64url_char (n div 64),
          b64url_char n] @ base64url_nopad rest)"
| "base64url_nopad [a, b] =
     (let n = unat a * 1024 + unat b * 4
      in [b64url_char (n div 4096), b64url_char (n div 64), b64url_char n])"
| "base64url_nopad [a] =
     (let n = unat a * 16 in [b64url_char (n div 64), b64url_char n])"
| "base64url_nopad [] = []"

definition b64url_index :: "char \<Rightarrow> nat option" where
  "b64url_index c =
     (if c \<in> set b64url_alphabet
      then Some (length (takeWhile (\<lambda>x. x \<noteq> c) b64url_alphabet)) else None)"

fun sextets :: "string \<Rightarrow> nat list option" where
  "sextets [] = Some []"
| "sextets (c # cs) =
     (case b64url_index c of
        None \<Rightarrow> None
      | Some v \<Rightarrow> (case sextets cs of None \<Rightarrow> None | Some vs \<Rightarrow> Some (v # vs)))"

fun octets :: "nat list \<Rightarrow> 8 word list option" where
  "octets (a # b # c # d # rest) =
     (let n = a * 262144 + b * 4096 + c * 64 + d
      in case octets rest of
           None \<Rightarrow> None
         | Some bs \<Rightarrow> Some (of_nat (n div 65536) # of_nat (n div 256) # of_nat n # bs))"
| "octets [a, b, c] =
     (let n = a * 4096 + b * 64 + c in Some [of_nat (n div 1024), of_nat (n div 4)])"
| "octets [a, b] = (let n = a * 64 + b in Some [of_nat (n div 16)])"
| "octets [a] = None"
| "octets [] = Some []"

definition base64url_decode :: "string \<Rightarrow> error + 8 word list" where
  "base64url_decode s =
     (case sextets s of
        None \<Rightarrow> Inl (Error ''illegal base64 data'')
      | Some vs \<Rightarrow>
          (case octets vs of
             None \<Rightarrow> Inl (Error ''illegal base64 data'')
           | Some bs \<Rightarrow> Inr bs))"

section \<open>The PKCE code that client/external/pkce\_test.go tests\<close>

text \<open>
  Modelled from the spec: \<^verbatim>\<open>newPkceCode\<close> is missing from the sources; only its
  test is there. The spec's words: produces at least 32 bytes of secure randomness,
  base64url-encodes them without padding to form the verifier, computes SHA-256 over the
  verifier's bytes and base64url-encodes that without padding to form the challenge;
  fails only if the randomness source fails. The count \<open>n\<close> of random bytes, the
  randomness source (a failure, or the byte it delivers at each position of the buffer)
  and the hash function are parameters.
\<close>

record PkceCode =
  verifier :: string
  challenge :: string

definition newPkceCode ::
  "nat \<Rightarrow> error + (nat \<Rightarrow> 8 word) \<Rightarrow> (8 word list \<Rightarrow> 8 word list) \<Rightarrow> error + PkceCode" where
  "newPkceCode n rand sha256 =
     (case rand of
        Inl err \<Rightarrow> Inl err
      | Inr r \<Rightarrow>
          (let v = base64url_nopad (map r [0..<n])
           in Inr \<lparr>verifier = v, challenge = base64url_nopad (sha256 (map of_char v))\<rparr>))"

section \<open>The identity token that credentials/oidc\_identity\_token\_test.go tests\<close>

text \<open>\<^verbatim>\<open>strings.Split(s, sep)\<close> for a separator of one character.\<close>

fun split_on :: "char \<Rightarrow> string \<Rightarrow> string list" where
  "split_on sep [] = [[]]"
| "split_on sep (c # cs) =
     (if c = sep then [] # split_on sep cs
      else (case split_on sep cs of
              [] \<Rightarrow> [[c]]
            | w # ws \<Rightarrow> (c # w) # ws))"

text \<open>
  A decoded JSON document. A number is an integer here: the claim read from a token is a
  count of whole seconds.
\<close>

datatype json =
  JNull | JBool bool | JNumber int | JString string | JArray "json list"
  | JObject "(string \<times> json) list"

text \<open>
  Modelled from the spec: \<^verbatim>\<open>OidcIdentityToken.IsExpired\<close> is missing from the
  sources; only its test is there. The spec's words: splits the token into exactly three
  dot-separated segments, if the count is wrong returns expired; decodes the second
  segment as base64url, if decoding fails returns expired; parses the decoded bytes as a
  JSON object and reads the \<^verbatim>\<open>exp\<close> field, if the field is absent or not numeric
  returns expired; otherwise compares the claimed epoch seconds against the current time.
  At equality the token counts as expired (the spec resolves ambiguity to expired). The
  JSON parser and the current time are parameters.
\<close>

definition IsExpired ::
  "(8 word list \<Rightarrow> error + (string \<times> json) list) \<Rightarrow> int \<Rightarrow> string \<Rightarrow> bool" where
  "IsExpired json_Unmarshal now tok =
     (case split_on CHR ''.'' tok of
        [header, payload, signature] \<Rightarrow>
          (case base64url_decode payload of
             Inl _ \<Rightarrow> True
           | Inr bs \<Rightarrow>
               (case json_Unmarshal bs of
                  Inl _ \<Rightarrow> True
                | Inr claims \<Rightarrow>
                    (case map_of claims ''exp'' of
                       Some (JNumber e) \<Rightarrow> \<not> now < e
                     | _ \<Rightarrow> True)))
      | _ \<Rightarrow> True)"

text \<open>
  A parser for running \<^verbatim>\<open>IsExpired\<close> on the test's tokens. It reads the documents
  \<^verbatim>\<open>json.Marshal\<close> writes for a map of strings and integers (one object, no
  spaces, members whose values are strings without quotes or commas inside, or
  integers) and refuses everything else.
\<close>

fun decimal :: "string \<Rightarrow> nat \<Rightarrow> nat option" where
  "decimal [] acc = Some acc"
| "decimal (c # cs) acc =
     (if 48 \<le> (of_char c :: nat) \<and> (of_char c :: nat) \<le> 57
      then decimal cs (10 * acc + (of_char c - 48)) else None)"

definition json_scalar :: "string \<Rightarrow> json option" where
  "json_scalar s =
     (if 2 \<le> length s \<and> hd s = CHR 0x22 \<and> last s = CHR 0x22
        then (if CHR 0x22 \<in> set (butlast (tl s)) then None
              else Some (JString (butlast (tl s))))
      else if s = [] then None
      else if hd s = CHR ''-''
        then (if tl s = [] then None
              else map_option (\<lambda>n. JNumber (- int n)) (decimal (tl s) 0))
      else map_option (\<lambda>n. JNumber (int n)) (decimal s 0))"

fun json_members :: "string list \<Rightarrow> error + (string \<times> json) list" where
  "json_members [] = Inr []"
| "json_members (m # ms) =
     (case split_on CHR '':'' m of
        [k, v] \<Rightarrow>
          (case (json_scalar k, json_scalar v) of
             (Some (JString key), Some val) \<Rightarrow>
               (case json_members ms of
                  Inl err \<Rightarrow> Inl err
                | Inr rest \<Rightarrow> Inr ((key, val) # rest))
           | _ \<Rightarrow> Inl (Error ''invalid character''))
      | _ \<Rightarrow> Inl (Error ''invalid character''))"

definition unmarshal_flat :: "8 word list \<Rightarrow> error + (string \<times> json) list" where
  "unmarshal_flat bs =
     (let s = map (\<lambda>b. char_of (unat b)) bs
      in if 2 \<le> length s \<and> hd s = CHR ''{'' \<and> last s = CHR ''}''
         then (if butlast (tl s) = [] then Inr []
               else json_members (split_on CHR '','' (butlast (tl s))))
         else Inl (Error ''invalid character''))"

section \<open>Goroutines running the address operations under the mutex\<close>






definition events_of :: "panic + (error option \<times> netif_event list) \<Rightarrow> netif_event list" where
  "events_of r = (case r of Inl _ \<Rightarrow> [] | Inr (_, evs) \<Rightarrow> evs)"





chapter \<open>Properties\<close>

section \<open>The chain loader\<close>

lemma Config_loop_fold:
  "Config_loop ops pname sources ls (c, lg) =
     (foldl (MergeIn ops) c (merged_results (map (\<lambda>ldr. ldr_Config ldr pname sources) ls)),
      lg @ logged_errors ''error loading configuration: ''
             (map (\<lambda>ldr. ldr_Config ldr pname sources) ls))"
proof (induction ls arbitrary: c lg)
  case Nil
  show ?case by (simp add: merged_results_def logged_errors_def)
next
  case (Cons ldr rest)
  show ?case
  proof (cases "ldr_Config ldr pname sources")
    case (Pair cf e)
    then show ?thesis
      using Cons.IH by (cases e) (simp_all add: merged_results_def logged_errors_def)
  qed
qed

lemma Credentials_loop_fold:
  "Credentials_loop ops pname sources ls (c, lg) =
     (foldl (MergeIn ops) c (merged_results (map (\<lambda>ldr. ldr_Credentials ldr pname sources) ls)),
      lg @ logged_errors ''error loading credentials: ''
             (map (\<lambda>ldr. ldr_Credentials ldr pname sources) ls))"
proof (induction ls arbitrary: c lg)
  case Nil
  show ?case by (simp add: merged_results_def logged_errors_def)
next
  case (Cons ldr rest)
  show ?case
  proof (cases "ldr_Credentials ldr pname sources")
    case (Pair cr e)
    then show ?thesis
      using Cons.IH by (cases e) (simp_all add: merged_results_def logged_errors_def)
  qed
qed

text \<open>
  Claim C2. For every profile name, every source list and every list of loaders, failing
  ones among them or all of them, \<^verbatim>\<open>chainLoader.Config\<close> and
  \<^verbatim>\<open>chainLoader.Credentials\<close> return a non-nil result with a nil error. The
  result is the zero value with the results of exactly the loaders that returned no
  error merged in by \<^verbatim>\<open>MergeIn\<close>, one after the other in the order of the
  chain; a loader that returned an error contributes a log line and nothing else.
\<close>

theorem chainLoader_never_fails:
  "chainLoader_Config ops l pname sources =
     (Some (foldl (MergeIn ops) (zero_value ops)
              (merged_results (map (\<lambda>ldr. ldr_Config ldr pname sources) (loaders l)))),
      None,
      logged_errors ''error loading configuration: ''
        (map (\<lambda>ldr. ldr_Config ldr pname sources) (loaders l)))
   \<and> chainLoader_Credentials ops' l pname sources =
     (Some (foldl (MergeIn ops') (zero_value ops')
              (merged_results (map (\<lambda>ldr. ldr_Credentials ldr pname sources) (loaders l)))),
      None,
      logged_errors ''error loading credentials: ''
        (map (\<lambda>ldr. ldr_Credentials ldr pname sources) (loaders l)))"
  by (simp add: chainLoader_Config_def chainLoader_Credentials_def
      Config_loop_fold Credentials_loop_fold)

text \<open>
  A chain of three loaders: the first gives a region, the second fails, the third gives
  a role ARN. The result has both fields, no error, and one log line.
\<close>

lemma chainLoader_Config_example:
  "chainLoader_Config fieldwise_ops
     (NewChainLoader
        [example_loader (Some (''us-east-1'', []), None),
         example_loader (None, Some (Error ''no such file'')),
         example_loader (Some ([], ''arn:aws:iam::1:role/Admin''), None)])
     ''dev'' [] =
   (Some (''us-east-1'', ''arn:aws:iam::1:role/Admin''), None,
    [''error loading configuration: no such file''])"
  by (simp add: chainLoader_Config_def NewChainLoader_def example_loader_def fieldwise_ops_def)

text \<open>
  Claim C10. A chain loader built from the empty list of loaders returns, for every
  profile name, a non-nil pointer to the zero value of \<^verbatim>\<open>AwsConfig\<close> from
  \<^verbatim>\<open>Config\<close> and to the zero value of \<^verbatim>\<open>AwsCredentials\<close> from
  \<^verbatim>\<open>Credentials\<close>, each with a nil error (and nothing logged).
\<close>

theorem chainLoader_empty_chain:
  "chainLoader_Config ops (NewChainLoader []) pname sources = (Some (zero_value ops), None, [])
   \<and> chainLoader_Credentials ops' (NewChainLoader []) pname sources =
       (Some (zero_value ops'), None, [])"
  by (simp add: chainLoader_Config_def chainLoader_Credentials_def NewChainLoader_def)

section \<open>The shared-configuration handler\<close>

text \<open>
  Claim C9. \<^verbatim>\<open>Config\<close> called with a nil pointer returns a nil error, leaves the
  handler as it was, and makes no outside call: no environment read, no file load, no
  log line.
\<close>

theorem Config_nil_is_noop:
  "Config w h None = (h, None, None, [])"
  by (simp add: Config_def)

lemma readEnv_profile:
  "LookupEnv w ''AWS_PROFILE'' = Some p \<Longrightarrow> profile (fst (readEnv w h)) = p"
  by (simp add: readEnv_def Let_def split: option.splits)

lemma Name_set_Name [simp]: "Name (set_Name n c) = n"
  by (cases c) simp

lemma Name_set_sourceProfile [simp]: "Name (set_sourceProfile sp c) = Name c"
  by (cases c) simp

lemma loadProfile_Name:
  assumes "loadProfile w h c = (h', c', None, evs)"
  shows "Name c' = profile h'
         \<and> profile h' = (if profile h = [] then defProfile h else profile h)"
  using assms
  by (auto simp: loadProfile_def Let_def split: sum.splits prod.splits option.splits if_splits)

text \<open>
  Whenever \<^verbatim>\<open>AWS_PROFILE\<close> is set to a non-empty name, a successful
  \<^verbatim>\<open>Config\<close> leaves that name in the config, whatever name the config came
  with and whatever \<^verbatim>\<open>Profile\<close> had stored in the handler:
  \<^verbatim>\<open>readEnv\<close> runs after \<^verbatim>\<open>h.Profile(c.Name)\<close> and overwrites
  \<^verbatim>\<open>h.profile\<close>.
\<close>

lemma Config_env_profile_wins:
  assumes env: "LookupEnv w ''AWS_PROFILE'' = Some p" and "p \<noteq> []"
    and run: "Config w h (Some c) = (h', Some c', None, evs)"
  shows "Name c' = p"
proof -
  let ?h1 = "if length (Name c) > 0 then Profile h (Name c) else h"
  obtain h2 ev1 where r: "readEnv w ?h1 = (h2, ev1)"
    by (cases "readEnv w ?h1")
  have p2: "profile h2 = p"
    using readEnv_profile[OF env, of ?h1] r by simp
  obtain h3 c3 e3 ev2 where l: "loadProfile w h2 c = (h3, c3, e3, ev2)"
    by (cases "loadProfile w h2 c") auto
  from run r l have e3: "e3 = None" and c': "Name c' = Name c3"
    by (auto simp: Config_def Let_def split: option.splits)
  from loadProfile_Name[of w h2 c h3 c3 ev2] l e3 p2 \<open>p \<noteq> []\<close> c' show ?thesis
    by simp
qed

text \<open>
  Claim C1 says an explicitly selected profile wins over \<^verbatim>\<open>AWS_PROFILE\<close>. The
  code does the opposite. With \<^verbatim>\<open>AWS_PROFILE=prod\<close> in the environment and
  the profile \<^verbatim>\<open>dev\<close> selected, either by the name of the config handed to
  \<^verbatim>\<open>Config\<close> or by \<^verbatim>\<open>Profile\<close>, \<^verbatim>\<open>Config\<close> returns no
  error and the config holds the name and the region of \<^verbatim>\<open>prod\<close>.
\<close>

theorem Config_explicit_profile_loses_to_env:
  "Config (example_world [(''AWS_PROFILE'', ''prod'')])
     (NewSharedCfgConfigHandler (example_world [(''AWS_PROFILE'', ''prod'')]) None)
     (Some (set_Name ''dev'' new_AwsConfig)) =
   (\<lparr>confFile = ''/home/user/.aws/config'', credFile = ''/home/user/.aws/credentials'',
      profile = ''prod'', defProfile = ''default'', log = None\<rparr>,
    Some (AwsConfig ''prod'' ''ap-south-1'' [] [] None
            (Some (AwsConfig ''default'' ''us-east-1'' [] [] None None))),
    None,
    [EnvLookup ''AWS_CONFIG_FILE'', EnvLookup ''AWS_SHARED_CREDENTIALS_FILE'',
     EnvLookup ''AWS_DEFAULT_PROFILE'', EnvLookup ''AWS_PROFILE'',
     IniLoad ''/home/user/.aws/config''])
   \<and> Config (example_world [(''AWS_PROFILE'', ''prod'')])
     (Profile (NewSharedCfgConfigHandler (example_world [(''AWS_PROFILE'', ''prod'')]) None) ''dev'')
     (Some new_AwsConfig) =
   (\<lparr>confFile = ''/home/user/.aws/config'', credFile = ''/home/user/.aws/credentials'',
      profile = ''prod'', defProfile = ''default'', log = None\<rparr>,
    Some (AwsConfig ''prod'' ''ap-south-1'' [] [] None
            (Some (AwsConfig ''default'' ''us-east-1'' [] [] None None))),
    None,
    [EnvLookup ''AWS_CONFIG_FILE'', EnvLookup ''AWS_SHARED_CREDENTIALS_FILE'',
     EnvLookup ''AWS_DEFAULT_PROFILE'', EnvLookup ''AWS_PROFILE'',
     IniLoad ''/home/user/.aws/config''])"
  by (simp add: Config_def NewSharedCfgConfigHandler_def example_world_def alist_world_def
      example_config_def readEnv_def loadProfile_def mapConfig_def mapSection_def
      alist_GetSection_def new_AwsConfig_def Profile_def debugf_def Let_def)

text \<open>
  With no \<^verbatim>\<open>AWS_PROFILE\<close> in the environment the selected profile is the one
  loaded.
\<close>

lemma Config_explicit_profile_without_env:
  "Config (example_world []) (NewSharedCfgConfigHandler (example_world []) None)
     (Some (set_Name ''dev'' new_AwsConfig)) =
   (\<lparr>confFile = ''/home/user/.aws/config'', credFile = ''/home/user/.aws/credentials'',
      profile = ''dev'', defProfile = ''default'', log = None\<rparr>,
    Some (AwsConfig ''dev'' ''eu-west-1'' [] [] None
            (Some (AwsConfig ''default'' ''us-east-1'' [] [] None None))),
    None,
    [EnvLookup ''AWS_CONFIG_FILE'', EnvLookup ''AWS_SHARED_CREDENTIALS_FILE'',
     EnvLookup ''AWS_DEFAULT_PROFILE'', EnvLookup ''AWS_PROFILE'',
     IniLoad ''/home/user/.aws/config''])"
  by (simp add: Config_def NewSharedCfgConfigHandler_def example_world_def alist_world_def
      example_config_def readEnv_def loadProfile_def mapConfig_def mapSection_def
      alist_GetSection_def new_AwsConfig_def Profile_def debugf_def Let_def)

section \<open>Removing the interface address\<close>

lemma issued_commands_removeAddress:
  "issued_commands (snd (removeAddress env)) =
     (case findInterfaceByAddress env (DefaultEc2ImdsAddr env) of
        Inl err \<Rightarrow> []
      | Inr iface \<Rightarrow> [[''ip'', ''address'', ''del'', DefaultEc2ImdsCidr env, ''dev'', if_Name iface]])"
  by (simp add: removeAddress_def issued_commands_def Let_def split: sum.splits)

text \<open>
  Claim C7. When the lookup of the interface that holds the metadata address fails
  (no interface holds it), \<^verbatim>\<open>removeAddress\<close> returns the lookup's error and
  runs no OS command. Every command \<^verbatim>\<open>removeAddress\<close> runs is the removal of
  the metadata address from the very interface the lookup returned.
\<close>

theorem removeAddress_interface_not_found:
  "(findInterfaceByAddress env (DefaultEc2ImdsAddr env) = Inl err \<longrightarrow>
      fst (removeAddress env) = Some err \<and> issued_commands (snd (removeAddress env)) = [])
   \<and> (\<forall>cmd \<in> set (issued_commands (snd (removeAddress env))).
        \<exists>iface. findInterfaceByAddress env (DefaultEc2ImdsAddr env) = Inr iface
          \<and> cmd = [''ip'', ''address'', ''del'', DefaultEc2ImdsCidr env, ''dev'', if_Name iface])"
proof (intro conjI impI ballI)
  assume "findInterfaceByAddress env (DefaultEc2ImdsAddr env) = Inl err"
  then show "fst (removeAddress env) = Some err"
    by (simp add: removeAddress_def)
next
  assume "findInterfaceByAddress env (DefaultEc2ImdsAddr env) = Inl err"
  then show "issued_commands (snd (removeAddress env)) = []"
    by (simp add: issued_commands_removeAddress)
next
  fix cmd
  assume "cmd \<in> set (issued_commands (snd (removeAddress env)))"
  then show "\<exists>iface. findInterfaceByAddress env (DefaultEc2ImdsAddr env) = Inr iface
      \<and> cmd = [''ip'', ''address'', ''del'', DefaultEc2ImdsCidr env, ''dev'', if_Name iface]"
    by (cases "findInterfaceByAddress env (DefaultEc2ImdsAddr env)")
       (simp_all add: issued_commands_removeAddress)
qed

text \<open>
  On a system whose only interface is the loopback with its own address, the removal
  fails with the lookup's error and nothing is run; once the loopback also holds the
  metadata address, the one command run names the loopback.
\<close>

theorem removeAddress_interface_not_found_witness:
  "findInterfaceByAddress (example_netif_env [(\<lparr>if_Name = ''lo''\<rparr>, [''127.0.0.1''])])
      (DefaultEc2ImdsAddr (example_netif_env [(\<lparr>if_Name = ''lo''\<rparr>, [''127.0.0.1''])]))
     = Inl (Error ''interface not found'')
   \<and> fst (removeAddress (example_netif_env [(\<lparr>if_Name = ''lo''\<rparr>, [''127.0.0.1''])]))
     = Some (Error ''interface not found'')
   \<and> issued_commands (snd (removeAddress (example_netif_env [(\<lparr>if_Name = ''lo''\<rparr>, [''127.0.0.1''])])))
     = []
   \<and> [''ip'', ''address'', ''del'', ''169.254.169.254/22'', ''dev'', ''lo'']
       \<in> set (issued_commands (snd (removeAddress
            (example_netif_env [(\<lparr>if_Name = ''lo''\<rparr>, [''127.0.0.1'', ''169.254.169.254''])]))))"
  using removeAddress_interface_not_found
    [of "example_netif_env [(\<lparr>if_Name = ''lo''\<rparr>, [''127.0.0.1''])]" "Error ''interface not found''"]
  by (simp add: example_netif_env_def lookup_interface_def issued_commands_removeAddress)

section \<open>The constructor of the assume-role provider\<close>

text \<open>
  Claim C6. \<^verbatim>\<open>NewAssumeRoleProvider\<close> with a nil profile panics, whatever the
  options; with a non-nil profile it returns a provider for that profile, nil options
  included.
\<close>

theorem NewAssumeRoleProvider_nil_profile_panics:
  "(\<exists>msg. NewAssumeRoleProvider None opts = Inl (Panic msg))
   \<and> (\<exists>prov. NewAssumeRoleProvider (Some p) opts = Inr prov \<and> arp_profile prov = p)
   \<and> (\<exists>prov. NewAssumeRoleProvider (Some p) None = Inr prov \<and> arp_profile prov = p)"
  by (simp add: NewAssumeRoleProvider_def)

section \<open>Base64 and the PKCE code\<close>

lemma length_b64url_alphabet: "length b64url_alphabet = 64"
  by (simp add: b64url_alphabet_def)

lemma b64url_char_in_alphabet: "b64url_char i \<in> set b64url_alphabet"
  unfolding b64url_char_def by (rule nth_mem) (simp add: length_b64url_alphabet)

lemma padding_not_in_alphabet: "CHR ''='' \<notin> set b64url_alphabet"
  by (simp add: b64url_alphabet_def)

lemma set_base64url_nopad: "set (base64url_nopad bs) \<subseteq> set b64url_alphabet"
  by (induction bs rule: base64url_nopad.induct) (simp_all add: Let_def b64url_char_in_alphabet)

lemma length_base64url_nopad: "length (base64url_nopad bs) = (4 * length bs + 2) div 3"
  by (induction bs rule: base64url_nopad.induct) (simp_all add: Let_def)

lemma no_padding_base64url_nopad: "CHR ''='' \<notin> set (base64url_nopad bs)"
  using set_base64url_nopad[of bs] padding_not_in_alphabet by blast

text \<open>The encoder on the test vectors of RFC 4648 and on bytes that need the last two letters.\<close>

lemma base64url_nopad_examples:
  "base64url_nopad (map of_char ''f'') = ''Zg''"
  "base64url_nopad (map of_char ''fo'') = ''Zm8''"
  "base64url_nopad (map of_char ''foobar'') = ''Zm9vYmFy''"
  "base64url_nopad [0xff, 0xfe, 0xfb, 0xff] = ''__77_w''"
  by (simp_all add: Let_def b64url_char_def b64url_alphabet_def)

lemma newPkceCode_Inr:
  "newPkceCode n (Inr r) h =
     Inr \<lparr>verifier = base64url_nopad (map r [0..<n]),
          challenge = base64url_nopad (h (map of_char (base64url_nopad (map r [0..<n]))))\<rparr>"
  by (simp add: newPkceCode_def Let_def)

text \<open>
  Claim C5. Every code a successful \<^verbatim>\<open>newPkceCode\<close> returns from at least 32
  random bytes has a verifier of at least 43 characters and a challenge that is the
  unpadded base64url encoding of the SHA-256 hash of the verifier's bytes; the challenge
  holds no padding character (nor does the verifier).
\<close>

theorem newPkceCode_properties:
  assumes "32 \<le> n" and "newPkceCode n rand sha256 = Inr p"
  shows "43 \<le> length (verifier p)
         \<and> challenge p = base64url_nopad (sha256 (map of_char (verifier p)))
         \<and> CHR ''='' \<notin> set (challenge p)
         \<and> CHR ''='' \<notin> set (verifier p)"
proof -
  from assms(2) obtain r where "rand = Inr r"
    by (cases rand) (simp_all add: newPkceCode_def)
  with assms(2) have p: "p = \<lparr>verifier = base64url_nopad (map r [0..<n]),
      challenge = base64url_nopad (sha256 (map of_char (base64url_nopad (map r [0..<n]))))\<rparr>"
    by (simp add: newPkceCode_Inr)
  have "length (verifier p) = (4 * n + 2) div 3"
    by (simp add: p length_base64url_nopad)
  with assms(1) have "43 \<le> length (verifier p)" by simp
  then show ?thesis by (simp add: p no_padding_base64url_nopad)
qed

text \<open>
  With 32 random bytes and a stand-in for the hash (the first 32 bytes of its input) the
  constructor succeeds, and the theorem applies to what it returns.
\<close>

theorem newPkceCode_properties_witness:
  "(32::nat) \<le> 32
   \<and> (\<exists>p. newPkceCode 32 (Inr (\<lambda>i. of_nat (7 * i))) (take 32) = Inr p
        \<and> 43 \<le> length (verifier p)
        \<and> CHR ''='' \<notin> set (challenge p))"
proof -
  obtain p where p: "newPkceCode 32 (Inr (\<lambda>i. of_nat (7 * i))) (take 32) = Inr p"
    by (simp only: newPkceCode_Inr)
  have "43 \<le> length (verifier p) \<and> CHR ''='' \<notin> set (challenge p)"
    using newPkceCode_properties[OF order_refl p] by blast
  then show ?thesis using p by blast
qed

section \<open>The identity token\<close>

text \<open>
  Claim C4. A token is expired when it does not split into three segments at its dots,
  when its second segment is not base64url, when the decoded bytes are not a JSON
  object, and when the object has no numeric \<^verbatim>\<open>exp\<close>; with a numeric
  \<^verbatim>\<open>exp\<close> it is unexpired exactly when \<^verbatim>\<open>exp\<close> is later than now.
\<close>

theorem IsExpired_cases:
  "(length (split_on CHR ''.'' tok) \<noteq> 3 \<longrightarrow> IsExpired um now tok)
   \<and> (\<forall>h p s. split_on CHR ''.'' tok = [h, p, s] \<longrightarrow>
        (\<forall>err. base64url_decode p = Inl err \<longrightarrow> IsExpired um now tok)
      \<and> (\<forall>bs. base64url_decode p = Inr bs \<longrightarrow>
            (\<forall>err. um bs = Inl err \<longrightarrow> IsExpired um now tok)
          \<and> (\<forall>claims. um bs = Inr claims \<longrightarrow>
                ((\<forall>e. map_of claims ''exp'' \<noteq> Some (JNumber e)) \<longrightarrow> IsExpired um now tok)
              \<and> (\<forall>e. map_of claims ''exp'' = Some (JNumber e) \<longrightarrow>
                    (\<not> IsExpired um now tok \<longleftrightarrow> now < e)))))"
proof (intro conjI impI allI)
  assume "length (split_on CHR ''.'' tok) \<noteq> 3"
  then show "IsExpired um now tok"
    by (auto simp: IsExpired_def split: list.splits)
next
  fix h p s err
  assume "split_on CHR ''.'' tok = [h, p, s]" "base64url_decode p = Inl err"
  then show "IsExpired um now tok" by (simp add: IsExpired_def)
next
  fix h p s bs err
  assume "split_on CHR ''.'' tok = [h, p, s]" "base64url_decode p = Inr bs" "um bs = Inl err"
  then show "IsExpired um now tok" by (simp add: IsExpired_def)
next
  fix h p s bs claims
  assume "split_on CHR ''.'' tok = [h, p, s]" "base64url_decode p = Inr bs"
    "um bs = Inr claims" "\<forall>e. map_of claims ''exp'' \<noteq> Some (JNumber e)"
  then show "IsExpired um now tok"
    by (auto simp: IsExpired_def split: option.splits json.splits)
next
  fix h p s bs claims e
  assume "split_on CHR ''.'' tok = [h, p, s]" "base64url_decode p = Inr bs"
    "um bs = Inr claims" "map_of claims ''exp'' = Some (JNumber e)"
  then show "\<not> IsExpired um now tok \<longleftrightarrow> now < e"
    by (simp add: IsExpired_def)
qed

text \<open>The test's tokens: their segments, payload bytes and parsed claims.\<close>

lemma token_good_segments:
  "split_on CHR ''.'' ''mock.eyJleHAiOjcyMDB9.mock'' = [''mock'', ''eyJleHAiOjcyMDB9'', ''mock'']"
  by simp

lemma token_good_payload:
  "base64url_decode ''eyJleHAiOjcyMDB9'' = Inr (map of_char ''{\"exp\":7200}'')"
  by (simp add: base64url_decode_def b64url_index_def b64url_alphabet_def Let_def)

lemma token_good_claims:
  "unmarshal_flat (map of_char ''{\"exp\":7200}'') = Inr [(''exp'', JNumber 7200)]"
  by (simp add: unmarshal_flat_def json_scalar_def Let_def char_of_def bit_0)

lemma token_two_segments: "length (split_on CHR ''.'' ''mock.payload'') \<noteq> 3"
  by simp

lemma token_bad_encoding: "base64url_decode ''pay|load'' = Inl (Error ''illegal base64 data'')"
  by (simp add: base64url_decode_def b64url_index_def b64url_alphabet_def Let_def)

lemma token_bad_json_payload: "base64url_decode ''payload'' = Inr [165, 172, 165, 161, 167]"
  by (simp add: base64url_decode_def b64url_index_def b64url_alphabet_def Let_def)

lemma token_bad_json: "unmarshal_flat [165, 172, 165, 161, 167] = Inl (Error ''invalid character'')"
  by (simp add: unmarshal_flat_def json_scalar_def Let_def char_of_def bit_0)

lemma token_bad_exp_payload:
  "base64url_decode ''eyJleHAiOiJpbnZhbGlkIn0'' = Inr (map of_char ''{\"exp\":\"invalid\"}'')"
  by (simp add: base64url_decode_def b64url_index_def b64url_alphabet_def Let_def)

lemma token_bad_exp_claims:
  "unmarshal_flat (map of_char ''{\"exp\":\"invalid\"}'') = Inr [(''exp'', JString ''invalid'')]"
  by (simp add: unmarshal_flat_def json_scalar_def Let_def char_of_def bit_0)

text \<open>
  The five cases of the test, with \<^verbatim>\<open>exp\<close> at 7200 seconds: an hour before it
  the token is good, an hour after it the token is expired, and each malformed token is
  expired.
\<close>

theorem IsExpired_cases_witness:
  "\<not> IsExpired unmarshal_flat 3600 ''mock.eyJleHAiOjcyMDB9.mock''
   \<and> IsExpired unmarshal_flat 10800 ''mock.eyJleHAiOjcyMDB9.mock''
   \<and> IsExpired unmarshal_flat 3600 ''mock.payload''
   \<and> IsExpired unmarshal_flat 3600 ''mock.pay|load.mock''
   \<and> IsExpired unmarshal_flat 3600 ''mock.payload.mock''
   \<and> IsExpired unmarshal_flat 3600 ''mock.eyJleHAiOiJpbnZhbGlkIn0.mock''"
proof -
  have m: "map_of [(''exp'', JNumber 7200)] ''exp'' = Some (JNumber 7200)" by simp
  have a: "\<not> IsExpired unmarshal_flat 3600 ''mock.eyJleHAiOjcyMDB9.mock''"
    using IsExpired_cases[of "''mock.eyJleHAiOjcyMDB9.mock''" unmarshal_flat 3600]
      token_good_segments token_good_payload token_good_claims m
    by simp
  have b: "IsExpired unmarshal_flat 10800 ''mock.eyJleHAiOjcyMDB9.mock''"
    using IsExpired_cases[of "''mock.eyJleHAiOjcyMDB9.mock''" unmarshal_flat 10800]
      token_good_segments token_good_payload token_good_claims m
    by simp
  have c: "IsExpired unmarshal_flat 3600 ''mock.payload''"
    using IsExpired_cases[of "''mock.payload''" unmarshal_flat 3600] token_two_segments
    by blast
  have d: "IsExpired unmarshal_flat 3600 ''mock.pay|load.mock''"
    using IsExpired_cases[of "''mock.pay|load.mock''" unmarshal_flat 3600] token_bad_encoding
    by simp
  have e: "IsExpired unmarshal_flat 3600 ''mock.payload.mock''"
    using IsExpired_cases[of "''mock.payload.mock''" unmarshal_flat 3600]
      token_bad_json_payload token_bad_json
    by simp
  have f: "IsExpired unmarshal_flat 3600 ''mock.eyJleHAiOiJpbnZhbGlkIn0.mock''"
    using IsExpired_cases[of "''mock.eyJleHAiOiJpbnZhbGlkIn0.mock''" unmarshal_flat 3600]
      token_bad_exp_payload token_bad_exp_claims
    by simp
  from a b c d e f show ?thesis by blast
qed

section \<open>The mutex around the address operations\<close>








lemma addAddress_makes_no_mutex_call:
  "MuLock \<notin> set (events_of (addAddress env iface cidrAddr))
   \<and> MuUnlock \<notin> set (events_of (addAddress env iface cidrAddr))"
  by (simp add: addAddress_def events_of_def Let_def split: option.splits)







end
